theory Spec2Isabelle
  imports Complex_Main
begin

section \<open>JavaScript numbers\<close>

text \<open>
  The component computes with JavaScript numbers. They are modelled as the reals
  extended by the three special values of IEEE 754 that the code can produce and that
  change its control flow: the two infinities (division by a zero area) and NaN (which
  the operator \<open>||\<close> treats as absent). Arithmetic on finite values is exact: binary
  rounding, overflow and the sign of zero are not modelled (a zero behaves as \<open>+0\<close>).
\<close>

datatype jsnum = Num real | PosInf | NegInf | NaN

fun jneg :: "jsnum \<Rightarrow> jsnum" where
  "jneg (Num a) = Num (- a)"
| "jneg PosInf = NegInf"
| "jneg NegInf = PosInf"
| "jneg NaN = NaN"

fun jadd :: "jsnum \<Rightarrow> jsnum \<Rightarrow> jsnum" where
  "jadd (Num a) (Num b) = Num (a + b)"
| "jadd NaN _ = NaN"
| "jadd _ NaN = NaN"
| "jadd PosInf NegInf = NaN"
| "jadd NegInf PosInf = NaN"
| "jadd PosInf _ = PosInf"
| "jadd NegInf _ = NegInf"
| "jadd (Num a) PosInf = PosInf"
| "jadd (Num a) NegInf = NegInf"

definition jsub :: "jsnum \<Rightarrow> jsnum \<Rightarrow> jsnum" where
  "jsub a b = jadd a (jneg b)"

fun jmul :: "jsnum \<Rightarrow> jsnum \<Rightarrow> jsnum" where
  "jmul (Num a) (Num b) = Num (a * b)"
| "jmul NaN _ = NaN"
| "jmul _ NaN = NaN"
| "jmul (Num a) PosInf = (if a = 0 then NaN else if 0 < a then PosInf else NegInf)"
| "jmul (Num a) NegInf = (if a = 0 then NaN else if 0 < a then NegInf else PosInf)"
| "jmul PosInf (Num b) = (if b = 0 then NaN else if 0 < b then PosInf else NegInf)"
| "jmul NegInf (Num b) = (if b = 0 then NaN else if 0 < b then NegInf else PosInf)"
| "jmul PosInf PosInf = PosInf"
| "jmul PosInf NegInf = NegInf"
| "jmul NegInf PosInf = NegInf"
| "jmul NegInf NegInf = PosInf"

fun jdiv :: "jsnum \<Rightarrow> jsnum \<Rightarrow> jsnum" where
  "jdiv (Num a) (Num b) =
     (if b \<noteq> 0 then Num (a / b)
      else if a = 0 then NaN else if 0 < a then PosInf else NegInf)"
| "jdiv NaN _ = NaN"
| "jdiv _ NaN = NaN"
| "jdiv (Num a) PosInf = Num 0"
| "jdiv (Num a) NegInf = Num 0"
| "jdiv PosInf (Num b) = (if 0 \<le> b then PosInf else NegInf)"
| "jdiv NegInf (Num b) = (if 0 \<le> b then NegInf else PosInf)"
| "jdiv PosInf _ = NaN"
| "jdiv NegInf _ = NaN"

fun jsqrt :: "jsnum \<Rightarrow> jsnum" where
  "jsqrt (Num a) = (if 0 \<le> a then Num (sqrt a) else NaN)"
| "jsqrt PosInf = PosInf"
| "jsqrt NegInf = NaN"
| "jsqrt NaN = NaN"

text \<open>\<open>Math.round\<close>: the nearest integer, a tie going up.\<close>

fun jround :: "jsnum \<Rightarrow> jsnum" where
  "jround (Num a) = Num (of_int \<lfloor>a + 1 / 2\<rfloor>)"
| "jround v = v"

text \<open>The comparison \<open>a < b\<close>; it is false as soon as one side is NaN.\<close>

fun jlt :: "jsnum \<Rightarrow> jsnum \<Rightarrow> bool" where
  "jlt (Num a) (Num b) = (a < b)"
| "jlt NaN _ = False"
| "jlt _ NaN = False"
| "jlt _ NegInf = False"
| "jlt PosInf _ = False"
| "jlt NegInf _ = True"
| "jlt (Num a) PosInf = True"

definition jgt :: "jsnum \<Rightarrow> jsnum \<Rightarrow> bool" where
  "jgt a b = jlt b a"

text \<open>Truthiness of a number: \<open>0\<close> and NaN are falsy.\<close>

fun truthy :: "jsnum \<Rightarrow> bool" where
  "truthy (Num a) = (a \<noteq> 0)"
| "truthy NaN = False"
| "truthy _ = True"

subsection \<open>\<open>Number.prototype.toFixed(1)\<close>\<close>

definition digitChar :: "nat \<Rightarrow> char" where
  "digitChar d = ''0123456789'' ! (d mod 10)"

fun natToString :: "nat \<Rightarrow> string" where
  "natToString n =
     (if n < 10 then [digitChar n] else natToString (n div 10) @ [digitChar (n mod 10)])"

declare natToString.simps [simp del]

text \<open>
  For a finite \<open>x\<close> below \<open>10^21\<close> in magnitude, \<open>toFixed(1)\<close> takes the integer \<open>n\<close>
  nearest to \<open>10 * |x|\<close> (the larger one on a tie), writes its decimal digits, pads them
  to two digits and puts the point before the last one; a negative \<open>x\<close> gets a leading
  minus sign. From \<open>10^21\<close> on the result is that of \<open>Number::toString\<close> in exponent
  notation, which is not part of this model: it is the parameter \<open>expo\<close>.
\<close>

definition fixed1 :: "real \<Rightarrow> string" where
  "fixed1 x =
     (let m = natToString (nat \<lfloor>10 * x + 1 / 2\<rfloor>);
          m' = (if length m \<le> 1 then CHR ''0'' # m else m)
      in butlast m' @ ''.'' @ [last m'])"

fun toFixed1 :: "(real \<Rightarrow> string) \<Rightarrow> jsnum \<Rightarrow> string" where
  "toFixed1 expo (Num x) =
     (if x < 0
      then ''-'' @ (if 10 ^ 21 \<le> - x then expo (- x) else fixed1 (- x))
      else (if 10 ^ 21 \<le> x then expo x else fixed1 x))"
| "toFixed1 expo PosInf = ''Infinity''"
| "toFixed1 expo NegInf = ''-Infinity''"
| "toFixed1 expo NaN = ''NaN''"

section \<open>Data model\<close>

text \<open>
  A prediction is what the detection model returns; a detection is a prediction with the
  optional field \<open>distance\<close>. The field \<open>class\<close> is named \<open>className\<close> here.
  \<open>bbox\<close> is an array of numbers \<open>[x, y, width, height]\<close>.
\<close>

record prediction =
  bbox :: "jsnum list"
  className :: string
  score :: jsnum

record detection = prediction +
  distance :: "jsnum option"

text \<open>
  Reading an array element by destructuring: a missing element is \<open>undefined\<close>, which
  every arithmetic operator turns into NaN.
\<close>

definition elem :: "jsnum list \<Rightarrow> nat \<Rightarrow> jsnum" where
  "elem b i = (if i < length b then b ! i else NaN)"

text \<open>
  The properties of the component that the pipeline reads, with the two facts about the
  browser it depends on: whether \<open>window.speechSynthesis\<close> exists, and the exponent
  notation of numbers (see \<open>toFixed1\<close>).
\<close>

record props =
  warningDistance :: jsnum
  voiceRate :: jsnum
  voicePitch :: jsnum
  filteredObjects :: "string list"
  voiceEnabled :: bool
  speechSynthesis :: bool
  expNotation :: "real \<Rightarrow> string"

record utterance =
  utext :: string
  rate :: jsnum
  pitch :: jsnum

datatype exn = TypeError | DetectError

text \<open>
  The mutable state of the component: the two refs, the two pieces of React state that
  a cycle writes, and the queue of utterances handed to the speech engine.
\<close>

record state =
  lastAnnouncementTime :: int
  processingLock :: bool
  detections :: "detection list"
  error :: "string option"
  spoken :: "utterance list"

section \<open>The pipeline\<close>

text \<open>\<open>speak\<close>; \<open>now\<close> is the value \<open>Date.now()\<close> returns inside it.\<close>

definition speak :: "props \<Rightarrow> int \<Rightarrow> string \<Rightarrow> state \<Rightarrow> state" where
  "speak p now txt st =
     (if \<not> voiceEnabled p \<or> \<not> speechSynthesis p then st
      else if now - lastAnnouncementTime st < 2000 then st
      else st\<lparr>spoken := spoken st @ [\<lparr>utext = txt, rate = voiceRate p, pitch = voicePitch p\<rparr>],
              lastAnnouncementTime := now\<rparr>)"

definition getDirectionalGuidance :: "jsnum list \<Rightarrow> string" where
  "getDirectionalGuidance b =
     (let x = elem b 0; width = elem b 2;
          centerX = jadd x (jdiv width (Num 2))
      in if jlt centerX (Num 0.3) then ''on your left''
         else if jgt centerX (Num 0.7) then ''on your right''
         else ''directly ahead'')"

definition estimateDistance :: "jsnum list \<Rightarrow> jsnum" where
  "estimateDistance b =
     (let width = elem b 2; height = elem b 3;
          area = jmul width height;
          distance = jsqrt (jdiv (Num 1000000) area)
      in jdiv (jround (jmul distance (Num 10))) (Num 10))"

definition dangerousObjects :: "string list" where
  "dangerousObjects = [''person'', ''car'', ''truck'', ''motorcycle'', ''bicycle'', ''bus'']"

definition obstacles :: "string list" where
  "obstacles = [''chair'', ''bench'', ''pole'', ''fire hydrant'', ''stop sign'']"

text \<open>The expression \<open>d.distance || 0\<close>.\<close>

definition distanceOr0 :: "detection \<Rightarrow> jsnum" where
  "distanceOr0 d =
     (case distance d of None \<Rightarrow> Num 0 | Some v \<Rightarrow> if truthy v then v else Num 0)"

definition getPriorityLevel :: "props \<Rightarrow> detection \<Rightarrow> int" where
  "getPriorityLevel p d =
     (let dist = distanceOr0 d in
      if className d \<in> set dangerousObjects then
        (if jlt dist (jmul (warningDistance p) (Num 0.5)) then 1
         else if jlt dist (warningDistance p) then 2
         else 3)
      else if className d \<in> set obstacles then
        (if jlt dist (jmul (warningDistance p) (Num 0.4)) then 2 else 4)
      else 5)"

text \<open>The comparison function given to \<open>sort\<close>.\<close>

definition compareDetections :: "props \<Rightarrow> detection \<Rightarrow> detection \<Rightarrow> jsnum" where
  "compareDetections p a b =
     (let priorityDiff = getPriorityLevel p a - getPriorityLevel p b
      in if priorityDiff \<noteq> 0 then Num (of_int priorityDiff)
         else jsub (distanceOr0 a) (distanceOr0 b))"

text \<open>
  \<open>Array.prototype.sort\<close> with a comparison function \<open>cmp\<close>: \<open>a\<close> goes after \<open>b\<close>
  when \<open>cmp a b > 0\<close>; a result NaN counts as \<open>0\<close>. The sort is stable, so for a
  consistent comparison function its result is that of the stable insertion sort.
\<close>

fun insertBy :: "('a \<Rightarrow> 'a \<Rightarrow> jsnum) \<Rightarrow> 'a \<Rightarrow> 'a list \<Rightarrow> 'a list" where
  "insertBy cmp x [] = [x]"
| "insertBy cmp x (y # ys) =
     (if jlt (Num 0) (cmp x y) then y # insertBy cmp x ys else x # y # ys)"

fun sortBy :: "('a \<Rightarrow> 'a \<Rightarrow> jsnum) \<Rightarrow> 'a list \<Rightarrow> 'a list" where
  "sortBy cmp [] = []"
| "sortBy cmp (x # xs) = insertBy cmp x (sortBy cmp xs)"

text \<open>The message composed for the detection \<open>mostImportant\<close>.\<close>

definition composeMessage :: "props \<Rightarrow> detection \<Rightarrow> string" where
  "composeMessage p mostImportant =
     (let dist = distanceOr0 mostImportant;
          direction = getDirectionalGuidance (bbox mostImportant);
          message = className mostImportant @ '' detected '' @ direction @ '', ''
                    @ toFixed1 (expNotation p) dist @ '' meters away''
      in if jlt dist (jmul (warningDistance p) (Num 0.5)) then ''Warning! '' @ message
         else message)"

text \<open>
  The part of \<open>announceDetections\<close> after its two guards: the text it hands to
  \<open>speak\<close>, or nothing when it returns without speaking. Reading element \<open>0\<close> of an
  empty sorted array would raise a TypeError.
\<close>

definition chooseAnnouncement :: "props \<Rightarrow> detection list \<Rightarrow> exn + string option" where
  "chooseAnnouncement p ds =
     (if ds = [] then Inr (Some ''Path is clear ahead'')
      else let filteredDetections = filter (\<lambda>d. className d \<in> set (filteredObjects p)) ds
           in if filteredDetections = [] then Inr None
              else (case sortBy (compareDetections p) filteredDetections of
                      [] \<Rightarrow> Inl TypeError
                    | mostImportant # _ \<Rightarrow> Inr (Some (composeMessage p mostImportant))))"

text \<open>
  \<open>announceDetections\<close>; \<open>now\<close> is its own reading of the clock and \<open>now'\<close> the
  reading \<open>speak\<close> takes after it.
\<close>

definition announceDetections ::
  "props \<Rightarrow> int \<Rightarrow> int \<Rightarrow> detection list \<Rightarrow> state \<Rightarrow> exn + state" where
  "announceDetections p now now' ds st =
     (if \<not> voiceEnabled p \<or> \<not> speechSynthesis p then Inr st
      else if now - lastAnnouncementTime st < 2000 then Inr st
      else (case chooseAnnouncement p ds of
              Inl e \<Rightarrow> Inl e
            | Inr None \<Rightarrow> Inr st
            | Inr (Some message) \<Rightarrow> Inr (speak p now' message st)))"

definition decorate :: "prediction \<Rightarrow> detection" where
  "decorate pred =
     \<lparr>bbox = bbox pred, className = className pred, score = score pred,
      distance = Some (estimateDistance (bbox pred))\<rparr>"

text \<open>
  One cycle. \<open>detected\<close> is the outcome of building the tensor and running the model on
  it: a list of predictions, or an exception. A frame that arrives while the lock is
  held is dropped by the guard of the effect.
\<close>

definition processFrame ::
  "props \<Rightarrow> int \<Rightarrow> int \<Rightarrow> exn + prediction list \<Rightarrow> state \<Rightarrow> state" where
  "processFrame p now now' detected st =
     (if processingLock st then st
      else
        let st1 = st\<lparr>processingLock := True\<rparr>;
            st2 =
              (case detected of
                 Inl e \<Rightarrow> st1\<lparr>error := Some ''Failed to process image''\<rparr>
               | Inr predictions \<Rightarrow>
                   let processedDetections = map decorate predictions;
                       st' = st1\<lparr>detections := processedDetections\<rparr>
                   in (case announceDetections p now now' processedDetections st' of
                         Inl e \<Rightarrow> st'\<lparr>error := Some ''Failed to process image''\<rparr>
                       | Inr st'' \<Rightarrow> st''))
        in st2\<lparr>processingLock := False\<rparr>)"

section \<open>Notions used to state the properties\<close>

text \<open>The comparison \<open>a <= b\<close> of JavaScript.\<close>

definition jle :: "jsnum \<Rightarrow> jsnum \<Rightarrow> bool" where
  "jle a b = (a \<noteq> NaN \<and> (a = b \<or> jlt a b))"

text \<open>A step from \<open>st\<close> to \<open>st'\<close> has handed an utterance to the speech engine.\<close>

definition uttered :: "state \<Rightarrow> state \<Rightarrow> bool" where
  "uttered st st' = (length (spoken st) < length (spoken st'))"

text \<open>
  A sequence of dispatch attempts, each a call of \<open>speak\<close> with the properties, the
  clock reading and the text of that call: the list of the states before the first
  attempt and after each one.
\<close>

fun attempts :: "state \<Rightarrow> (props \<times> int \<times> string) list \<Rightarrow> state list" where
  "attempts st [] = [st]"
| "attempts st ((p, now, txt) # as) = st # attempts (speak p now txt st) as"

text \<open>
  The settings the application starts with, in a browser that has speech synthesis, and
  the state of the component when it is mounted.
\<close>

definition appProps :: props where
  "appProps =
     \<lparr>warningDistance = Num 3, voiceRate = Num 1.2, voicePitch = Num 1,
      filteredObjects = [''person'', ''car'', ''truck'', ''motorcycle'', ''bicycle''],
      voiceEnabled = True, speechSynthesis = True, expNotation = (\<lambda>x. ''1e+21'')\<rparr>"

definition initialState :: state where
  "initialState =
     \<lparr>lastAnnouncementTime = 0, processingLock = False, detections = [], error = None,
      spoken = []\<rparr>"

text \<open>
  The order the comparison function induces: \<open>a\<close> ranks before \<open>b\<close> when the pair
  (tier, distance) of \<open>a\<close> is at most that of \<open>b\<close> in the lexicographic order.
\<close>

definition ranksBefore :: "props \<Rightarrow> detection \<Rightarrow> detection \<Rightarrow> bool" where
  "ranksBefore p a b =
     (getPriorityLevel p a < getPriorityLevel p b \<or>
      (getPriorityLevel p a = getPriorityLevel p b \<and> jle (distanceOr0 a) (distanceOr0 b)))"

section \<open>Numbers and the distance of a detection\<close>


lemma distanceOr0_Some: "distance d = Some v \<Longrightarrow> v \<noteq> NaN \<Longrightarrow> distanceOr0 d = v"
  by (cases v) (simp_all add: distanceOr0_def)

lemma distanceOr0_None: "distance d = None \<Longrightarrow> distanceOr0 d = Num 0"
  by (simp add: distanceOr0_def)

lemma distanceOr0_not_NaN: "distanceOr0 d \<noteq> NaN"
  by (cases "distance d") (auto simp: distanceOr0_def elim: truthy.elims)

section \<open>The priority classifier\<close>



section \<open>The distance estimator\<close>



section \<open>The comparison function and the sort\<close>

lemma jsub_positive: "x \<noteq> NaN \<Longrightarrow> y \<noteq> NaN \<Longrightarrow> jlt (Num 0) (jsub x y) = jlt y x"
  by (cases x; cases y) (simp_all add: jsub_def)

lemma jsub_negative: "x \<noteq> NaN \<Longrightarrow> y \<noteq> NaN \<Longrightarrow> jlt (jsub x y) (Num 0) = jlt x y"
  by (cases x; cases y) (simp_all add: jsub_def)

lemma not_jlt_iff_jle: "x \<noteq> NaN \<Longrightarrow> y \<noteq> NaN \<Longrightarrow> (\<not> jlt y x) = jle x y"
  by (cases x; cases y) (auto simp: jle_def)

lemma jle_trans: "jle x y \<Longrightarrow> jle y z \<Longrightarrow> jle x z"
  by (cases x; cases y; cases z) (auto simp: jle_def)

lemma jle_total: "x \<noteq> NaN \<Longrightarrow> y \<noteq> NaN \<Longrightarrow> jle x y \<or> jle y x"
  by (cases x; cases y) (auto simp: jle_def)

lemma compare_positive:
  "jlt (Num 0) (compareDetections p a b) =
     (getPriorityLevel p b < getPriorityLevel p a \<or>
      (getPriorityLevel p a = getPriorityLevel p b \<and> jlt (distanceOr0 b) (distanceOr0 a)))"
  by (auto simp: compareDetections_def Let_def jsub_positive distanceOr0_not_NaN)

lemma compare_not_positive: "(\<not> jlt (Num 0) (compareDetections p a b)) = ranksBefore p a b"
  unfolding compare_positive ranksBefore_def
  using not_jlt_iff_jle [OF distanceOr0_not_NaN distanceOr0_not_NaN, of b a]
  by auto

lemma ranksBefore_trans: "ranksBefore p a b \<Longrightarrow> ranksBefore p b c \<Longrightarrow> ranksBefore p a c"
  unfolding ranksBefore_def using jle_trans by fastforce

lemma ranksBefore_total: "\<not> ranksBefore p a b \<Longrightarrow> ranksBefore p b a"
  unfolding ranksBefore_def
  using jle_total [OF distanceOr0_not_NaN distanceOr0_not_NaN, of a b] by auto

lemma insertBy_not_Nil: "insertBy cmp x ys \<noteq> []"
  by (cases ys) simp_all

lemma sortBy_Nil_iff: "(sortBy cmp xs = []) = (xs = [])"
  by (cases xs) (simp_all add: insertBy_not_Nil)

lemma set_insertBy: "set (insertBy cmp x ys) = insert x (set ys)"
  by (induction ys) auto

lemma set_sortBy: "set (sortBy cmp xs) = set xs"
  by (induction xs) (simp_all add: set_insertBy)

lemma length_insertBy: "length (insertBy cmp x ys) = Suc (length ys)"
  by (induction ys) auto

lemma length_sortBy: "length (sortBy cmp xs) = length xs"
  by (induction xs) (simp_all add: length_insertBy)

lemma sorted_insertBy:
  "sorted_wrt (ranksBefore p) ys \<Longrightarrow> sorted_wrt (ranksBefore p) (insertBy (compareDetections p) x ys)"
proof (induction ys)
  case Nil
  then show ?case by simp
next
  case (Cons y ys)
  show ?case
  proof (cases "jlt (Num 0) (compareDetections p x y)")
    case True
    then have "ranksBefore p y x"
      using compare_not_positive ranksBefore_total by blast
    with Cons True show ?thesis
      by (auto simp: set_insertBy)
  next
    case False
    then have xy: "ranksBefore p x y"
      by (simp add: compare_not_positive)
    then have "\<forall>z\<in>set ys. ranksBefore p x z"
      using Cons.prems ranksBefore_trans by auto
    with Cons.prems xy False show ?thesis by simp
  qed
qed

lemma sorted_sortBy: "sorted_wrt (ranksBefore p) (sortBy (compareDetections p) xs)"
  by (induction xs) (simp_all add: sorted_insertBy)

lemma sortBy_head_least:
  assumes "sortBy (compareDetections p) xs = m # rest"
  shows "m \<in> set xs \<and> (\<forall>d\<in>set xs. ranksBefore p m d)"
proof -
  have s: "sorted_wrt (ranksBefore p) (m # rest)"
    using sorted_sortBy [of p xs] assms by simp
  have e: "set xs = insert m (set rest)"
    using set_sortBy [of "compareDetections p" xs] assms by simp
  have "ranksBefore p m m"
    using ranksBefore_total by blast
  with s e show ?thesis by auto
qed

section \<open>The announcement selector\<close>

lemma fixed1_1: "fixed1 1 = ''1.0''"
  by (simp add: fixed1_def natToString.simps digitChar_def)

lemma chooseAnnouncement_filtered:
  assumes "filter (\<lambda>d. className d \<in> set (filteredObjects p)) ds = m' # fs'"
    and "sortBy (compareDetections p) (m' # fs') = m # rest"
  shows "chooseAnnouncement p ds = Inr (Some (composeMessage p m))"
proof -
  have "ds \<noteq> []" using assms(1) by auto
  then show ?thesis
    using assms unfolding chooseAnnouncement_def Let_def by simp
qed

text \<open>
  C4. Whenever some detection passes the filter, the detection the selector announces is
  the first element of the sorted filtered list, and it minimises the pair (priority
  tier, distance) in lexicographic order among the filtered detections: its tier is
  strictly lower than that of any other, or equal with a distance that is not larger. In
  particular, with \<open>warningDistance = 3\<close>, a chair at distance 1.0 and a car at
  distance 2.0 are both of tier 2 and the chair is announced, in whichever order the two
  are detected.
\<close>

theorem selector_least_tier_then_distance:
  "(filter (\<lambda>d. className d \<in> set (filteredObjects p)) ds \<noteq> [] \<longrightarrow>
      (\<exists>m rest.
         sortBy (compareDetections p) (filter (\<lambda>d. className d \<in> set (filteredObjects p)) ds)
           = m # rest \<and>
         chooseAnnouncement p ds = Inr (Some (composeMessage p m)) \<and>
         m \<in> set ds \<and> className m \<in> set (filteredObjects p) \<and>
         (\<forall>d\<in>set ds. className d \<in> set (filteredObjects p) \<longrightarrow>
            getPriorityLevel p m < getPriorityLevel p d \<or>
            (getPriorityLevel p m = getPriorityLevel p d \<and>
             jle (distanceOr0 m) (distanceOr0 d))))) \<and>
   (warningDistance p = Num 3 \<and> {''chair'', ''car''} \<subseteq> set (filteredObjects p) \<longrightarrow>
      (let chair = \<lparr>bbox = b, className = ''chair'', score = s, distance = Some (Num 1)\<rparr>;
           car = \<lparr>bbox = b', className = ''car'', score = s', distance = Some (Num 2)\<rparr>
       in getPriorityLevel p chair = 2 \<and> getPriorityLevel p car = 2 \<and>
          chooseAnnouncement p [chair, car] = Inr (Some (composeMessage p chair)) \<and>
          chooseAnnouncement p [car, chair] = Inr (Some (composeMessage p chair))))"
proof (intro conjI impI)
  let ?fs = "filter (\<lambda>d. className d \<in> set (filteredObjects p)) ds"
  assume ne: "?fs \<noteq> []"
  then obtain m rest where s: "sortBy (compareDetections p) ?fs = m # rest"
    using sortBy_Nil_iff [of "compareDetections p" ?fs] by (cases "sortBy (compareDetections p) ?fs") auto
  obtain m' fs' where f: "?fs = m' # fs'"
    using ne by (cases ?fs) auto
  have c: "chooseAnnouncement p ds = Inr (Some (composeMessage p m))"
    using chooseAnnouncement_filtered [OF f] s f by simp
  have l: "m \<in> set ?fs \<and> (\<forall>d\<in>set ?fs. ranksBefore p m d)"
    using sortBy_head_least [OF s] .
  show "\<exists>m rest.
         sortBy (compareDetections p) ?fs = m # rest \<and>
         chooseAnnouncement p ds = Inr (Some (composeMessage p m)) \<and>
         m \<in> set ds \<and> className m \<in> set (filteredObjects p) \<and>
         (\<forall>d\<in>set ds. className d \<in> set (filteredObjects p) \<longrightarrow>
            getPriorityLevel p m < getPriorityLevel p d \<or>
            (getPriorityLevel p m = getPriorityLevel p d \<and>
             jle (distanceOr0 m) (distanceOr0 d)))"
    using s c l unfolding ranksBefore_def by (intro exI [of _ m] exI [of _ rest]) auto
next
  assume a: "warningDistance p = Num 3 \<and> {''chair'', ''car''} \<subseteq> set (filteredObjects p)"
  show "let chair = \<lparr>bbox = b, className = ''chair'', score = s, distance = Some (Num 1)\<rparr>;
           car = \<lparr>bbox = b', className = ''car'', score = s', distance = Some (Num 2)\<rparr>
       in getPriorityLevel p chair = 2 \<and> getPriorityLevel p car = 2 \<and>
          chooseAnnouncement p [chair, car] = Inr (Some (composeMessage p chair)) \<and>
          chooseAnnouncement p [car, chair] = Inr (Some (composeMessage p chair))"
    using a
    by (simp add: Let_def chooseAnnouncement_def compareDetections_def getPriorityLevel_def
        distanceOr0_def dangerousObjects_def obstacles_def jsub_def)
qed

theorem selector_least_tier_then_distance_witness:
  "chooseAnnouncement (appProps\<lparr>filteredObjects := [''chair'', ''car'']\<rparr>)
     [\<lparr>bbox = [Num 0.6, Num 0.2, Num 0.3, Num 0.3], className = ''car'', score = Num 0.8,
       distance = Some (Num 2)\<rparr>,
      \<lparr>bbox = [Num 0.4, Num 0.5, Num 0.2, Num 0.3], className = ''chair'', score = Num 0.7,
       distance = Some (Num 1)\<rparr>]
   = Inr (Some ''Warning! chair detected directly ahead, 1.0 meters away'')"
  using selector_least_tier_then_distance
    [where p = "appProps\<lparr>filteredObjects := [''chair'', ''car'']\<rparr>"
       and b = "[Num 0.4, Num 0.5, Num 0.2, Num 0.3]" and s = "Num 0.7"
       and b' = "[Num 0.6, Num 0.2, Num 0.3, Num 0.3]" and s' = "Num 0.8"]
  by (simp add: appProps_def Let_def composeMessage_def distanceOr0_def
      getDirectionalGuidance_def elem_def jgt_def fixed1_1)

section \<open>The speech throttle\<close>

lemma speak_suppressed:
  "\<not> voiceEnabled p \<or> \<not> speechSynthesis p \<or> now - lastAnnouncementTime st < 2000 \<Longrightarrow>
   speak p now txt st = st"
  by (auto simp: speak_def)

lemma speak_dispatched:
  "voiceEnabled p \<Longrightarrow> speechSynthesis p \<Longrightarrow> 2000 \<le> now - lastAnnouncementTime st \<Longrightarrow>
   speak p now txt st =
     st\<lparr>spoken := spoken st @ [\<lparr>utext = txt, rate = voiceRate p, pitch = voicePitch p\<rparr>],
        lastAnnouncementTime := now\<rparr>"
  by (simp add: speak_def)

lemma uttered_speak:
  "uttered st (speak p now txt st) =
     (voiceEnabled p \<and> speechSynthesis p \<and> 2000 \<le> now - lastAnnouncementTime st)"
  by (auto simp: speak_def uttered_def)

lemma speak_other_fields:
  "detections (speak p now txt st) = detections st"
  "error (speak p now txt st) = error st"
  "processingLock (speak p now txt st) = processingLock st"
  by (simp_all add: speak_def)

lemma chooseAnnouncement_not_Inl: "chooseAnnouncement p ds \<noteq> Inl e"
  by (auto simp: chooseAnnouncement_def Let_def sortBy_Nil_iff split: list.splits)

lemma announceDetections_cases:
  obtains (silent) "announceDetections p now now' ds st = Inr st"
  | (handed) message where "chooseAnnouncement p ds = Inr (Some message)"
      and "voiceEnabled p" and "speechSynthesis p"
      and "2000 \<le> now - lastAnnouncementTime st"
      and "announceDetections p now now' ds st = Inr (speak p now' message st)"
proof (cases "\<not> voiceEnabled p \<or> \<not> speechSynthesis p \<or> now - lastAnnouncementTime st < 2000")
  case True
  then have "announceDetections p now now' ds st = Inr st"
    by (auto simp: announceDetections_def)
  then show ?thesis by (rule silent)
next
  case False
  show ?thesis
  proof (cases "chooseAnnouncement p ds")
    case (Inl e)
    then show ?thesis using chooseAnnouncement_not_Inl by blast
  next
    case (Inr r)
    show ?thesis
    proof (cases r)
      case None
      with Inr False have "announceDetections p now now' ds st = Inr st"
        by (simp add: announceDetections_def)
      then show ?thesis by (rule silent)
    next
      case (Some message)
      with Inr False
      have "announceDetections p now now' ds st = Inr (speak p now' message st)"
        by (simp add: announceDetections_def)
      with Inr Some False show ?thesis
        by (intro handed [of message]) auto
    qed
  qed
qed

text \<open>
  \<open>announceDetections\<close> checks the voice and the throttle before it selects; the result
  is the one of selecting first and dispatching afterwards.
\<close>

lemma announceDetections_select_then_dispatch:
  "announceDetections p now now' ds st =
     Inr (case chooseAnnouncement p ds of
            Inr (Some message) \<Rightarrow>
              if 2000 \<le> now - lastAnnouncementTime st then speak p now' message st else st
          | _ \<Rightarrow> st)"
proof (cases "chooseAnnouncement p ds")
  case (Inl e)
  then show ?thesis using chooseAnnouncement_not_Inl by blast
next
  case (Inr r)
  then show ?thesis
    by (cases r) (auto simp: announceDetections_def speak_def)
qed

lemma lastAnnouncementTime_speak_mono:
  "lastAnnouncementTime st \<le> lastAnnouncementTime (speak p now txt st)"
  by (simp add: speak_def)

lemma attempts_length: "length (attempts st as) = Suc (length as)"
  by (induction as arbitrary: st) auto

lemma attempts_mono:
  "k \<le> length as \<Longrightarrow> lastAnnouncementTime st \<le> lastAnnouncementTime (attempts st as ! k)"
proof (induction as arbitrary: st k)
  case Nil
  then show ?case by simp
next
  case (Cons a as)
  obtain p now msg where a: "a = (p, now, msg)" by (cases a) auto
  show ?case
  proof (cases k)
    case 0
    then show ?thesis by (simp add: a)
  next
    case (Suc k')
    then have "lastAnnouncementTime (speak p now msg st)
        \<le> lastAnnouncementTime (attempts (speak p now msg st) as ! k')"
      using Cons.prems by (intro Cons.IH) simp
    then show ?thesis
      using lastAnnouncementTime_speak_mono [of st p now msg] Suc by (simp add: a)
  qed
qed

lemma attempts_Suc:
  "j < length as \<Longrightarrow>
   attempts st as ! Suc j =
     speak (fst (as ! j)) (fst (snd (as ! j))) (snd (snd (as ! j))) (attempts st as ! j)"
proof (induction as arbitrary: st j)
  case Nil
  then show ?case by simp
next
  case (Cons a as)
  obtain p now msg where a: "a = (p, now, msg)" by (cases a) auto
  show ?case
  proof (cases j)
    case 0
    then show ?thesis by (cases as) (auto simp: a)
  next
    case (Suc j')
    then show ?thesis using Cons.prems Cons.IH [of j' "speak p now msg st"] by (simp add: a)
  qed
qed

lemma spoken_attempts_apart:
  assumes "i < j" and "j < length as"
    and "uttered (attempts st as ! i) (attempts st as ! Suc i)"
    and "uttered (attempts st as ! j) (attempts st as ! Suc j)"
  shows "2000 \<le> fst (snd (as ! j)) - fst (snd (as ! i))"
  using assms
proof (induction as arbitrary: st i j)
  case Nil
  then show ?case by simp
next
  case (Cons a as)
  obtain p now msg where a: "a = (p, now, msg)" by (cases a) auto
  let ?st1 = "speak p now msg st"
  obtain j' where j: "j = Suc j'" using Cons.prems(1) by (cases j) auto
  have j'len: "j' < length as" using Cons.prems(2) j by simp
  show ?case
  proof (cases i)
    case 0
    have u0: "uttered st ?st1"
      using Cons.prems(3) 0 by (cases as) (auto simp: a)
    then have last1: "lastAnnouncementTime ?st1 = now"
      by (auto simp: speak_def uttered_def split: if_splits)
    have "lastAnnouncementTime ?st1 \<le> lastAnnouncementTime (attempts ?st1 as ! j')"
      using j'len by (intro attempts_mono) simp
    moreover have "uttered (attempts ?st1 as ! j')
        (speak (fst (as ! j')) (fst (snd (as ! j'))) (snd (snd (as ! j'))) (attempts ?st1 as ! j'))"
      using Cons.prems(4) j attempts_Suc [OF j'len, of ?st1] by (simp add: a)
    then have "2000 \<le> fst (snd (as ! j')) - lastAnnouncementTime (attempts ?st1 as ! j')"
      by (simp add: uttered_speak)
    ultimately show ?thesis using last1 0 j by (simp add: a)
  next
    case (Suc i')
    have "2000 \<le> fst (snd (as ! j')) - fst (snd (as ! i'))"
      using Cons.prems Suc j j'len by (intro Cons.IH [of i' j' ?st1]) (simp_all add: a)
    then show ?thesis using Suc j by simp
  qed
qed

text \<open>
  C8. Whenever \<open>speak\<close> does not speak, because the voice is disabled, the browser has
  no speech synthesis or less than 2000 ms have passed since \<open>lastAnnouncementTime\<close>,
  it leaves the state, and so the timestamp, unchanged; when the timestamp changes, an
  utterance has been handed to the speech engine and the timestamp is the clock reading
  of that call. A cycle in which no announcement is chosen leaves the state unchanged,
  and in every cycle \<open>announceDetections\<close> changes the timestamp only by speaking.
\<close>

theorem timestamp_changes_only_when_spoken:
  "(\<not> voiceEnabled p \<or> \<not> speechSynthesis p \<or> now - lastAnnouncementTime st < 2000
      \<longrightarrow> speak p now txt st = st) \<and>
   (\<not> uttered st (speak p now txt st)
      \<longrightarrow> lastAnnouncementTime (speak p now txt st) = lastAnnouncementTime st) \<and>
   (lastAnnouncementTime (speak p now txt st) \<noteq> lastAnnouncementTime st
      \<longrightarrow> uttered st (speak p now txt st) \<and> lastAnnouncementTime (speak p now txt st) = now) \<and>
   (chooseAnnouncement p ds = Inr None \<longrightarrow> announceDetections p now now' ds st = Inr st) \<and>
   (\<exists>st'. announceDetections p now now' ds st = Inr st' \<and>
      (\<not> uttered st st' \<longrightarrow> lastAnnouncementTime st' = lastAnnouncementTime st) \<and>
      (lastAnnouncementTime st' \<noteq> lastAnnouncementTime st
         \<longrightarrow> uttered st st' \<and> lastAnnouncementTime st' = now'))"
proof -
  have a: "\<not> voiceEnabled p \<or> \<not> speechSynthesis p \<or> now - lastAnnouncementTime st < 2000
      \<longrightarrow> speak p now txt st = st"
    using speak_suppressed by blast
  have b: "\<not> uttered st (speak p now txt st)
      \<longrightarrow> lastAnnouncementTime (speak p now txt st) = lastAnnouncementTime st"
    by (auto simp: speak_def uttered_def)
  have c: "lastAnnouncementTime (speak p now txt st) \<noteq> lastAnnouncementTime st
      \<longrightarrow> uttered st (speak p now txt st) \<and> lastAnnouncementTime (speak p now txt st) = now"
    by (auto simp: speak_def uttered_def)
  have d: "chooseAnnouncement p ds = Inr None \<longrightarrow> announceDetections p now now' ds st = Inr st"
    by (simp add: announceDetections_def)
  have e: "\<exists>st'. announceDetections p now now' ds st = Inr st' \<and>
      (\<not> uttered st st' \<longrightarrow> lastAnnouncementTime st' = lastAnnouncementTime st) \<and>
      (lastAnnouncementTime st' \<noteq> lastAnnouncementTime st
         \<longrightarrow> uttered st st' \<and> lastAnnouncementTime st' = now')"
  proof (cases rule: announceDetections_cases [of p now now' ds st])
    case silent
    then show ?thesis by (simp add: uttered_def)
  next
    case (handed message)
    then show ?thesis by (auto simp: speak_def uttered_def)
  qed
  from a b c d e show ?thesis by blast
qed

theorem timestamp_changes_only_when_spoken_witness:
  "speak appProps 3000 ''Path is clear ahead'' (initialState\<lparr>lastAnnouncementTime := 1500\<rparr>)
     = initialState\<lparr>lastAnnouncementTime := 1500\<rparr>"
  using timestamp_changes_only_when_spoken
    [of appProps 3000 "initialState\<lparr>lastAnnouncementTime := 1500\<rparr>" "''Path is clear ahead''"]
  by (simp add: initialState_def)

text \<open>
  C2, amended. In every sequence of dispatch attempts, two attempts whose clock readings
  are less than 2000 ms apart never both result in an utterance. Two consecutive
  attempts at least 2000 ms apart both result in an utterance if both are eligible (voice
  enabled, speech synthesis present) and the first one comes at least 2000 ms after
  \<open>lastAnnouncementTime\<close>.
\<close>

theorem throttle_law:
  "(\<forall>i j. i < j \<and> j < length as \<and> fst (snd (as ! j)) - fst (snd (as ! i)) < 2000 \<longrightarrow>
      \<not> (uttered (attempts st as ! i) (attempts st as ! Suc i) \<and>
         uttered (attempts st as ! j) (attempts st as ! Suc j))) \<and>
   (2000 \<le> t2 - t1 \<and> 2000 \<le> t1 - lastAnnouncementTime st \<and>
    voiceEnabled p1 \<and> speechSynthesis p1 \<and> voiceEnabled p2 \<and> speechSynthesis p2 \<longrightarrow>
      uttered (attempts st [(p1, t1, x1), (p2, t2, x2)] ! 0)
              (attempts st [(p1, t1, x1), (p2, t2, x2)] ! 1) \<and>
      uttered (attempts st [(p1, t1, x1), (p2, t2, x2)] ! 1)
              (attempts st [(p1, t1, x1), (p2, t2, x2)] ! 2))"
proof (intro conjI allI impI)
  fix i j
  assume "i < j \<and> j < length as \<and> fst (snd (as ! j)) - fst (snd (as ! i)) < 2000"
  then show "\<not> (uttered (attempts st as ! i) (attempts st as ! Suc i) \<and>
         uttered (attempts st as ! j) (attempts st as ! Suc j))"
    using spoken_attempts_apart [of i j as st] by fastforce
next
  assume e: "2000 \<le> t2 - t1 \<and> 2000 \<le> t1 - lastAnnouncementTime st \<and>
    voiceEnabled p1 \<and> speechSynthesis p1 \<and> voiceEnabled p2 \<and> speechSynthesis p2"
  then show "uttered (attempts st [(p1, t1, x1), (p2, t2, x2)] ! 0)
              (attempts st [(p1, t1, x1), (p2, t2, x2)] ! 1)"
    by (simp add: uttered_speak)
  from e have "lastAnnouncementTime (speak p1 t1 x1 st) = t1"
    by (simp add: speak_def)
  with e show "uttered (attempts st [(p1, t1, x1), (p2, t2, x2)] ! 1)
              (attempts st [(p1, t1, x1), (p2, t2, x2)] ! 2)"
    by (simp add: uttered_speak)
qed

theorem throttle_law_witness:
  "uttered (attempts initialState [(appProps, 5000, ''a''), (appProps, 7000, ''b'')] ! 0)
           (attempts initialState [(appProps, 5000, ''a''), (appProps, 7000, ''b'')] ! 1) \<and>
   uttered (attempts initialState [(appProps, 5000, ''a''), (appProps, 7000, ''b'')] ! 1)
           (attempts initialState [(appProps, 5000, ''a''), (appProps, 7000, ''b'')] ! 2) \<and>
   \<not> (uttered (attempts initialState [(appProps, 5000, ''a''), (appProps, 6999, ''b'')] ! 0)
              (attempts initialState [(appProps, 5000, ''a''), (appProps, 6999, ''b'')] ! Suc 0) \<and>
      uttered (attempts initialState [(appProps, 5000, ''a''), (appProps, 6999, ''b'')] ! 1)
              (attempts initialState [(appProps, 5000, ''a''), (appProps, 6999, ''b'')] ! Suc 1))"
proof -
  have "(0::nat) < 1 \<and> 1 < length [(appProps, 5000::int, ''a''), (appProps, 6999, ''b'')] \<and>
    fst (snd ([(appProps, 5000::int, ''a''), (appProps, 6999, ''b'')] ! 1))
      - fst (snd ([(appProps, 5000::int, ''a''), (appProps, 6999, ''b'')] ! 0)) < 2000"
    by simp
  then have "\<not> (uttered (attempts initialState [(appProps, 5000, ''a''), (appProps, 6999, ''b'')] ! 0)
              (attempts initialState [(appProps, 5000, ''a''), (appProps, 6999, ''b'')] ! Suc 0) \<and>
      uttered (attempts initialState [(appProps, 5000, ''a''), (appProps, 6999, ''b'')] ! 1)
              (attempts initialState [(appProps, 5000, ''a''), (appProps, 6999, ''b'')] ! Suc 1))"
    using throttle_law [of "[(appProps, 5000, ''a''), (appProps, 6999, ''b'')]" initialState]
    by blast
  then show ?thesis
    using throttle_law [of "[]" initialState 7000 5000 appProps appProps "''a''" "''b''"]
    by (simp add: initialState_def appProps_def)
qed

text \<open>
  C2 as stated fails: after an utterance at 10000, the attempts at 11000 and 13000 are
  2000 ms apart and both eligible, yet the one at 11000 is suppressed (the one at 13000
  is spoken).
\<close>

theorem throttle_counterexample:
  "voiceEnabled appProps \<and> speechSynthesis appProps \<and> (2000::int) \<le> 13000 - 11000 \<and>
   \<not> uttered
       (attempts initialState
          [(appProps, 10000, ''a''), (appProps, 11000, ''b''), (appProps, 13000, ''c'')] ! 1)
       (attempts initialState
          [(appProps, 10000, ''a''), (appProps, 11000, ''b''), (appProps, 13000, ''c'')] ! 2) \<and>
   uttered
       (attempts initialState
          [(appProps, 10000, ''a''), (appProps, 11000, ''b''), (appProps, 13000, ''c'')] ! 2)
       (attempts initialState
          [(appProps, 10000, ''a''), (appProps, 11000, ''b''), (appProps, 13000, ''c'')] ! 3)"
  by (simp add: uttered_speak appProps_def eval_nat_numeral)
     (simp add: speak_def initialState_def)

section \<open>One cycle\<close>

lemma processFrame_success:
  assumes "\<not> processingLock st"
  obtains st'' where
    "announceDetections p now now' (map decorate preds)
       (st\<lparr>processingLock := True, detections := map decorate preds\<rparr>) = Inr st''"
    and "processFrame p now now' (Inr preds) st = st''\<lparr>processingLock := False\<rparr>"
proof (cases rule: announceDetections_cases
    [of p now now' "map decorate preds" "st\<lparr>processingLock := True, detections := map decorate preds\<rparr>"])
  case silent
  then show ?thesis
    using assms that by (simp add: processFrame_def Let_def)
next
  case (handed message)
  then show ?thesis
    using assms that by (simp add: processFrame_def Let_def)
qed

lemma announceDetections_other_fields:
  assumes "announceDetections p now now' ds st = Inr st'"
  shows "detections st' = detections st \<and> error st' = error st \<and>
         processingLock st' = processingLock st"
proof (cases rule: announceDetections_cases [of p now now' ds st])
  case silent
  with assms show ?thesis by simp
next
  case (handed message)
  with assms have "st' = speak p now' message st" by simp
  then show ?thesis by (simp add: speak_other_fields)
qed

lemma processFrame_published:
  assumes "\<not> processingLock st"
  shows "detections (processFrame p now now' (Inr preds) st) = map decorate preds \<and>
         error (processFrame p now now' (Inr preds) st) = error st \<and>
         \<not> processingLock (processFrame p now now' (Inr preds) st)"
proof -
  obtain st'' where a: "announceDetections p now now' (map decorate preds)
       (st\<lparr>processingLock := True, detections := map decorate preds\<rparr>) = Inr st''"
    and b: "processFrame p now now' (Inr preds) st = st''\<lparr>processingLock := False\<rparr>"
    using processFrame_success [OF assms] by blast
  show ?thesis
    using announceDetections_other_fields [OF a] b by simp
qed

lemma chooseAnnouncement_none_pass:
  assumes "ds \<noteq> []" and "\<forall>d\<in>set ds. className d \<notin> set (filteredObjects p)"
  shows "chooseAnnouncement p ds = Inr None"
proof -
  have "filter (\<lambda>d. className d \<in> set (filteredObjects p)) ds = []"
    using assms(2) by (simp add: filter_empty_conv)
  with assms(1) show ?thesis
    by (simp add: chooseAnnouncement_def)
qed

lemma className_decorate: "className (decorate x) = className x"
  by (simp add: decorate_def)

text \<open>
  C3. The selector answers an empty detection list with the fixed message
  \<open>Path is clear ahead\<close>, whatever \<open>filteredObjects\<close> is, and a cycle on an empty list
  that is allowed to speak speaks exactly this message. When the list is not empty and no
  detection has its class in \<open>filteredObjects\<close>, no announcement is chosen, the cycle
  speaks nothing and leaves the timestamp alone, and the decorated list is still
  published.
\<close>

theorem empty_list_and_filtered_out:
  "chooseAnnouncement p [] = Inr (Some ''Path is clear ahead'') \<and>
   (\<not> processingLock st \<and> voiceEnabled p \<and> speechSynthesis p \<and>
    2000 \<le> now - lastAnnouncementTime st \<and> 2000 \<le> now' - lastAnnouncementTime st \<longrightarrow>
      spoken (processFrame p now now' (Inr []) st) =
        spoken st @ [\<lparr>utext = ''Path is clear ahead'', rate = voiceRate p, pitch = voicePitch p\<rparr>] \<and>
      detections (processFrame p now now' (Inr []) st) = []) \<and>
   (preds \<noteq> [] \<and> (\<forall>x\<in>set preds. className x \<notin> set (filteredObjects p)) \<and>
    \<not> processingLock st \<longrightarrow>
      chooseAnnouncement p (map decorate preds) = Inr None \<and>
      spoken (processFrame p now now' (Inr preds) st) = spoken st \<and>
      lastAnnouncementTime (processFrame p now now' (Inr preds) st) = lastAnnouncementTime st \<and>
      detections (processFrame p now now' (Inr preds) st) = map decorate preds)"
proof (intro conjI impI)
  show "chooseAnnouncement p [] = Inr (Some ''Path is clear ahead'')"
    by (simp add: chooseAnnouncement_def)
next
  assume e: "\<not> processingLock st \<and> voiceEnabled p \<and> speechSynthesis p \<and>
    2000 \<le> now - lastAnnouncementTime st \<and> 2000 \<le> now' - lastAnnouncementTime st"
  then show "spoken (processFrame p now now' (Inr []) st) =
        spoken st @ [\<lparr>utext = ''Path is clear ahead'', rate = voiceRate p, pitch = voicePitch p\<rparr>]"
    by (simp add: processFrame_def announceDetections_def chooseAnnouncement_def speak_def)
  from e show "detections (processFrame p now now' (Inr []) st) = []"
    using processFrame_published [of st p now now' "[]"] by simp
next
  assume a: "preds \<noteq> [] \<and> (\<forall>x\<in>set preds. className x \<notin> set (filteredObjects p)) \<and>
    \<not> processingLock st"
  then show c: "chooseAnnouncement p (map decorate preds) = Inr None"
    by (intro chooseAnnouncement_none_pass) (auto simp: className_decorate)
  from a show "detections (processFrame p now now' (Inr preds) st) = map decorate preds"
    using processFrame_published by blast
  have s: "processFrame p now now' (Inr preds) st = st\<lparr>detections := map decorate preds\<rparr>"
    using a c by (simp add: processFrame_def announceDetections_def Let_def)
  show "spoken (processFrame p now now' (Inr preds) st) = spoken st"
    by (simp add: s)
  show "lastAnnouncementTime (processFrame p now now' (Inr preds) st) = lastAnnouncementTime st"
    by (simp add: s)
qed

theorem empty_list_and_filtered_out_witness:
  "spoken (processFrame appProps 5000 5001 (Inr []) initialState) =
     [\<lparr>utext = ''Path is clear ahead'', rate = Num 1.2, pitch = Num 1\<rparr>] \<and>
   spoken (processFrame appProps 5000 5001
             (Inr [\<lparr>bbox = [Num 0.4, Num 0.5, Num 0.2, Num 0.3], className = ''chair'',
                    score = Num 0.7\<rparr>]) initialState) = [] \<and>
   length (detections (processFrame appProps 5000 5001
             (Inr [\<lparr>bbox = [Num 0.4, Num 0.5, Num 0.2, Num 0.3], className = ''chair'',
                    score = Num 0.7\<rparr>]) initialState)) = 1"
  using empty_list_and_filtered_out
    [of appProps initialState 5000 5001
      "[\<lparr>bbox = [Num 0.4, Num 0.5, Num 0.2, Num 0.3], className = ''chair'', score = Num 0.7\<rparr>]"]
  by (simp add: appProps_def initialState_def)

section \<open>The scenario of a single person on the left\<close>

lemma sqrt_square: "0 \<le> x \<Longrightarrow> sqrt (x * x) = x"
  by simp

lemma sqrt_25000000: "sqrt 25000000 = 5000"
proof -
  have "sqrt (5000 * 5000) = (5000::real)" by (rule sqrt_square) simp
  then show ?thesis by simp
qed

lemma sqrt_100: "sqrt 100 = 10"
proof -
  have "sqrt (10 * 10) = (10::real)" by (rule sqrt_square) simp
  then show ?thesis by simp
qed

lemma fixed1_5000: "fixed1 5000 = ''5000.0''"
  by (simp add: fixed1_def natToString.simps digitChar_def)

lemma fixed1_0: "fixed1 0 = ''0.0''"
  by (simp add: fixed1_def natToString.simps digitChar_def)

lemma estimateDistance_scenario:
  "estimateDistance [Num 0.1, Num 0.1, Num 0.2, Num 0.2] = Num 5000"
  by (simp add: estimateDistance_def elem_def sqrt_25000000)

lemma chooseAnnouncement_single:
  "className d \<in> set (filteredObjects p) \<Longrightarrow>
   chooseAnnouncement p [d] = Inr (Some (composeMessage p d))"
  by (simp add: chooseAnnouncement_def)

lemma decorate_scenario:
  "decorate \<lparr>bbox = [Num 0.1, Num 0.1, Num 0.2, Num 0.2], className = ''person'',
             score = Num 0.9\<rparr>
   = \<lparr>bbox = [Num 0.1, Num 0.1, Num 0.2, Num 0.2], className = ''person'', score = Num 0.9,
      distance = Some (Num 5000)\<rparr>"
  by (simp only: decorate_def prediction.select_convs estimateDistance_scenario)

lemma guidance_scenario:
  "getDirectionalGuidance [Num 0.1, Num 0.1, Num 0.2, Num 0.2] = ''on your left''"
  by (simp add: getDirectionalGuidance_def elem_def)

lemma composeMessage_scenario:
  assumes "warningDistance p = Num 3"
  shows "composeMessage p (decorate \<lparr>bbox = [Num 0.1, Num 0.1, Num 0.2, Num 0.2],
      className = ''person'', score = Num 0.9\<rparr>)
      = ''person detected on your left, 5000.0 meters away''"
proof -
  have "distanceOr0 \<lparr>bbox = [Num 0.1, Num 0.1, Num 0.2, Num 0.2], className = ''person'',
      score = Num 0.9, distance = Some (Num 5000)\<rparr> = Num 5000"
    by (simp add: distanceOr0_def)
  then show ?thesis
    unfolding decorate_scenario composeMessage_def Let_def prediction.select_convs
      guidance_scenario
    using assms by (simp add: fixed1_5000)
qed

text \<open>
  C5, amended. For the single detection of class person with the box
  \<open>(0.1, 0.1, 0.2, 0.2)\<close>, \<open>warningDistance = 3\<close> and person among the filtered
  classes, the estimated distance \<open>sqrt (1000000 / (0.2 * 0.2))\<close> rounded to one
  decimal is 5000.0, the direction is \<open>on your left\<close>, and the chosen announcement is
  \<open>person detected on your left, 5000.0 meters away\<close>, without the warning prefix.
\<close>

theorem scenario_person_on_left:
  assumes "warningDistance p = Num 3" and "''person'' \<in> set (filteredObjects p)"
  shows "estimateDistance [Num 0.1, Num 0.1, Num 0.2, Num 0.2] = Num 5000 \<and>
    getDirectionalGuidance [Num 0.1, Num 0.1, Num 0.2, Num 0.2] = ''on your left'' \<and>
    chooseAnnouncement p
      (map decorate [\<lparr>bbox = [Num 0.1, Num 0.1, Num 0.2, Num 0.2], className = ''person'',
                      score = Num 0.9\<rparr>])
      = Inr (Some ''person detected on your left, 5000.0 meters away'')"
proof -
  have "chooseAnnouncement p
      [decorate \<lparr>bbox = [Num 0.1, Num 0.1, Num 0.2, Num 0.2], className = ''person'',
                      score = Num 0.9\<rparr>]
      = Inr (Some ''person detected on your left, 5000.0 meters away'')"
    using assms(2) composeMessage_scenario [OF assms(1)]
    by (simp only: chooseAnnouncement_single className_decorate prediction.select_convs)
  then show ?thesis
    using guidance_scenario estimateDistance_scenario by (simp only: list.map)
qed

theorem scenario_person_on_left_witness:
  "chooseAnnouncement appProps
      (map decorate [\<lparr>bbox = [Num 0.1, Num 0.1, Num 0.2, Num 0.2], className = ''person'',
                      score = Num 0.9\<rparr>])
      = Inr (Some ''person detected on your left, 5000.0 meters away'')"
  using scenario_person_on_left [of appProps]
  by (simp add: appProps_def)

text \<open>
  C5 as stated fails: the distance of the box is not 5.0 and the announcement is not the
  one that reports 5.0 meters.
\<close>

theorem scenario_distance_counterexample:
  "estimateDistance [Num 0.1, Num 0.1, Num 0.2, Num 0.2] \<noteq> Num 5.0 \<and>
   chooseAnnouncement appProps
      (map decorate [\<lparr>bbox = [Num 0.1, Num 0.1, Num 0.2, Num 0.2], className = ''person'',
                      score = Num 0.9\<rparr>])
      \<noteq> Inr (Some ''person detected on your left, 5.0 meters away'')"
proof -
  have c: "chooseAnnouncement appProps
      [decorate \<lparr>bbox = [Num 0.1, Num 0.1, Num 0.2, Num 0.2], className = ''person'',
                      score = Num 0.9\<rparr>]
      = Inr (Some ''person detected on your left, 5000.0 meters away'')"
    using composeMessage_scenario [of appProps]
    by (simp add: chooseAnnouncement_single className_decorate appProps_def)
  have e: "estimateDistance [Num 0.1, Num 0.1, Num 0.2, Num 0.2] \<noteq> Num 5.0"
    unfolding estimateDistance_scenario by simp
  have n: "(Inr (Some ''person detected on your left, 5000.0 meters away'') :: exn + string option)
      \<noteq> Inr (Some ''person detected on your left, 5.0 meters away'')"
    by simp
  show ?thesis
    unfolding list.map c using e n by blast
qed

section \<open>Boxes of area zero\<close>








section \<open>The published list\<close>

text \<open>
  C7, amended. For every successful cycle, the list published for display is the
  decorated detection list in the order the model produced it: it has the length of the
  list of predictions, and its element at each position is the decoration of the
  prediction at that position.
\<close>

theorem published_list_in_model_order:
  "\<not> processingLock st \<longrightarrow>
     length (detections (processFrame p now now' (Inr preds) st)) = length preds \<and>
     (\<forall>i<length preds.
        detections (processFrame p now now' (Inr preds) st) ! i = decorate (preds ! i))"
  by (simp add: processFrame_published)

theorem published_list_in_model_order_witness:
  "length (detections (processFrame appProps 5000 5001
       (Inr [\<lparr>bbox = [Num 0, Num 0, Num 100, Num 100], className = ''chair'', score = Num 1\<rparr>,
             \<lparr>bbox = [Num 0, Num 0, Num 1000, Num 1000], className = ''person'', score = Num 1\<rparr>])
       initialState)) = 2"
  using published_list_in_model_order
    [of initialState appProps 5000 5001
       "[\<lparr>bbox = [Num 0, Num 0, Num 100, Num 100], className = ''chair'', score = Num 1\<rparr>,
         \<lparr>bbox = [Num 0, Num 0, Num 1000, Num 1000], className = ''person'', score = Num 1\<rparr>]"]
  by (simp add: initialState_def)

text \<open>
  C7 as stated fails: a chair at distance 10 (tier 4) detected before a person at
  distance 1 (tier 1) is published before it, while the sort by (tier, distance) puts the
  person first.
\<close>

theorem published_list_counterexample:
  "detections (processFrame appProps 5000 5001
       (Inr [\<lparr>bbox = [Num 0, Num 0, Num 100, Num 100], className = ''chair'', score = Num 1\<rparr>,
             \<lparr>bbox = [Num 0, Num 0, Num 1000, Num 1000], className = ''person'', score = Num 1\<rparr>])
       initialState)
     = [\<lparr>bbox = [Num 0, Num 0, Num 100, Num 100], className = ''chair'', score = Num 1,
         distance = Some (Num 10)\<rparr>,
        \<lparr>bbox = [Num 0, Num 0, Num 1000, Num 1000], className = ''person'', score = Num 1,
         distance = Some (Num 1)\<rparr>] \<and>
   getPriorityLevel appProps
     \<lparr>bbox = [Num 0, Num 0, Num 100, Num 100], className = ''chair'', score = Num 1,
      distance = Some (Num 10)\<rparr> = 4 \<and>
   getPriorityLevel appProps
     \<lparr>bbox = [Num 0, Num 0, Num 1000, Num 1000], className = ''person'', score = Num 1,
      distance = Some (Num 1)\<rparr> = 1 \<and>
   sortBy (compareDetections appProps)
     [\<lparr>bbox = [Num 0, Num 0, Num 100, Num 100], className = ''chair'', score = Num 1,
       distance = Some (Num 10)\<rparr>,
      \<lparr>bbox = [Num 0, Num 0, Num 1000, Num 1000], className = ''person'', score = Num 1,
       distance = Some (Num 1)\<rparr>]
     = [\<lparr>bbox = [Num 0, Num 0, Num 1000, Num 1000], className = ''person'', score = Num 1,
         distance = Some (Num 1)\<rparr>,
        \<lparr>bbox = [Num 0, Num 0, Num 100, Num 100], className = ''chair'', score = Num 1,
         distance = Some (Num 10)\<rparr>]"
proof -
  have "detections (processFrame appProps 5000 5001
       (Inr [\<lparr>bbox = [Num 0, Num 0, Num 100, Num 100], className = ''chair'', score = Num 1\<rparr>,
             \<lparr>bbox = [Num 0, Num 0, Num 1000, Num 1000], className = ''person'', score = Num 1\<rparr>])
       initialState)
     = map decorate
         [\<lparr>bbox = [Num 0, Num 0, Num 100, Num 100], className = ''chair'', score = Num 1\<rparr>,
          \<lparr>bbox = [Num 0, Num 0, Num 1000, Num 1000], className = ''person'', score = Num 1\<rparr>]"
    by (simp add: processFrame_published initialState_def)
  then show ?thesis
    by (simp add: decorate_def estimateDistance_def elem_def sqrt_100 getPriorityLevel_def
        distanceOr0_def dangerousObjects_def obstacles_def appProps_def compareDetections_def)
qed

section \<open>Detections without a distance\<close>

lemma positive_half: "jlt (Num 0) w \<Longrightarrow> jlt (Num 0) (jmul w (Num 0.5))"
  by (cases w) simp_all

lemma positive_two_fifths: "jlt (Num 0) w \<Longrightarrow> jlt (Num 0) (jmul w (Num 0.4))"
  by (cases w) simp_all

lemma dangerous_not_obstacle: "c \<in> set dangerousObjects \<Longrightarrow> c \<notin> set obstacles"
  by (auto simp: dangerousObjects_def obstacles_def)

text \<open>
  C9. For a detection whose field \<open>distance\<close> is absent and a positive
  \<open>warningDistance\<close>, the classifier and the message composer take the distance to be
  0: the detection is of tier 1 if its class is dangerous and of tier 2 if it is an
  obstacle, the comparison function puts it before every detection of the same tier
  with a positive distance, and its message starts with \<open>Warning! \<close> and reports
  \<open>0.0 meters away\<close>.
\<close>

theorem absent_distance_counts_as_zero:
  assumes "distance d = None" and "jlt (Num 0) (warningDistance p)"
  shows "distanceOr0 d = Num 0 \<and>
    (className d \<in> set dangerousObjects \<longrightarrow> getPriorityLevel p d = 1) \<and>
    (className d \<in> set obstacles \<longrightarrow> getPriorityLevel p d = 2) \<and>
    (\<forall>b v. distance b = Some v \<and> jlt (Num 0) v \<and>
        getPriorityLevel p b = getPriorityLevel p d \<longrightarrow>
          jlt (compareDetections p d b) (Num 0) \<and>
          jlt (Num 0) (compareDetections p b d) \<and>
          sortBy (compareDetections p) [b, d] = [d, b] \<and>
          sortBy (compareDetections p) [d, b] = [d, b]) \<and>
    composeMessage p d =
      ''Warning! '' @ className d @ '' detected '' @ getDirectionalGuidance (bbox d) @
      '', 0.0 meters away''"
proof (intro conjI impI allI)
  show z: "distanceOr0 d = Num 0"
    using assms(1) by (rule distanceOr0_None)
  show "composeMessage p d =
      ''Warning! '' @ className d @ '' detected '' @ getDirectionalGuidance (bbox d) @
      '', 0.0 meters away''"
    using positive_half [OF assms(2)]
    by (simp add: composeMessage_def z fixed1_0)
  {
    assume "className d \<in> set dangerousObjects"
    then show "getPriorityLevel p d = 1"
      using positive_half [OF assms(2)] by (simp add: getPriorityLevel_def z)
  }
  {
    assume o: "className d \<in> set obstacles"
    then have "className d \<notin> set dangerousObjects"
      using dangerous_not_obstacle by blast
    with o show "getPriorityLevel p d = 2"
      using positive_two_fifths [OF assms(2)] by (simp add: getPriorityLevel_def z)
  }
  fix b v
  assume b: "distance b = Some v \<and> jlt (Num 0) v \<and> getPriorityLevel p b = getPriorityLevel p d"
  then have "v \<noteq> NaN" by (cases v) auto
  then have vb: "distanceOr0 b = v"
    using b distanceOr0_Some by blast
  show neg: "jlt (compareDetections p d b) (Num 0)"
    using b \<open>v \<noteq> NaN\<close> by (simp add: compareDetections_def z vb jsub_negative)
  show pos: "jlt (Num 0) (compareDetections p b d)"
    using b \<open>v \<noteq> NaN\<close> by (simp add: compareDetections_def z vb jsub_positive)
  have npos: "\<not> jlt (Num 0) (compareDetections p d b)"
    using b by (simp add: compare_positive z vb) (cases v; simp)
  show "sortBy (compareDetections p) [b, d] = [d, b]"
    using pos by simp
  show "sortBy (compareDetections p) [d, b] = [d, b]"
    using npos by simp
qed

theorem absent_distance_counts_as_zero_witness:
  "getPriorityLevel appProps
     \<lparr>bbox = [Num 0, Num 0, Num 1, Num 1], className = ''person'', score = Num 1,
      distance = None\<rparr> = 1 \<and>
   composeMessage appProps
     \<lparr>bbox = [Num 0, Num 0, Num 1, Num 1], className = ''person'', score = Num 1,
      distance = None\<rparr> = ''Warning! person detected directly ahead, 0.0 meters away''"
  using absent_distance_counts_as_zero
    [of "\<lparr>bbox = [Num 0, Num 0, Num 1, Num 1], className = ''person'', score = Num 1,
          distance = None\<rparr>" appProps]
  by (simp add: appProps_def dangerousObjects_def getDirectionalGuidance_def elem_def jgt_def)

end
